theory Spec2Isabelle
  imports Main
begin

section \<open>The CSV loader of ingest.py\<close>

text \<open>
  The script has two functions, \<open>load_csv_to_sql_server\<close> and \<open>main\<close>. Everything
  they do beyond building strings is a call into the outside world: the file system
  (\<open>os.path.isfile\<close>), pandas (\<open>read_csv\<close>, \<open>to_sql\<close>, \<open>read_sql\<close>), pyodbc
  (\<open>connect\<close>, \<open>close\<close>) and SQLAlchemy (\<open>create_engine\<close>, \<open>engine.connect\<close>,
  \<open>execute\<close>). None of these libraries is part of the repository, so the answers of the
  outside world are a parameter of the model (the record \<open>world\<close>), each call that can
  raise answers with an exception value or a result, and every call is logged as an
  \<open>event\<close> in the order the source makes it, followed by \<open>Raised e\<close> when the call
  raised \<open>e\<close>. The destination database is passed along and is changed only by
  \<open>to_sql\<close>.

  Python strings are modelled as \<open>string\<close> (their UTF-8 bytes), \<open>None\<close>-or-string
  arguments as \<open>string option\<close>.
\<close>

subsection \<open>Data\<close>

text \<open>The exceptions: the two the source raises itself, and the ones of the libraries
  (all of them subclasses of \<open>Exception\<close>), each with its message.\<close>

datatype exn =
    FileNotFoundError string
  | ValueError string
  | OtherException string

text \<open>\<open>str(e)\<close>\<close>

fun str_exn :: "exn \<Rightarrow> string" where
  "str_exn (FileNotFoundError m) = m"
| "str_exn (ValueError m) = m"
| "str_exn (OtherException m) = m"

text \<open>A pandas DataFrame as \<open>read_csv\<close> produces it: the header's column names and the
  data rows.\<close>

record dataframe =
  columns :: "string list"
  rows :: "string list list"

text \<open>\<open>df.empty\<close>: true when any axis has length 0.\<close>

definition df_empty :: "dataframe \<Rightarrow> bool" where
  "df_empty df = (rows df = [] \<or> columns df = [])"

text \<open>\<open>df.head(n)\<close>\<close>

definition head :: "nat \<Rightarrow> dataframe \<Rightarrow> dataframe" where
  "head n df = df\<lparr>rows := take n (rows df)\<rparr>"

text \<open>The destination: table name to table contents.\<close>

type_synonym database = "string \<rightharpoonup> dataframe"

text \<open>A SQLAlchemy engine, identified by its URL.\<close>

datatype engine = Engine string

text \<open>
  The events of a run. \<open>Print m\<close> is a line on standard output; \<open>Isfile\<close>,
  \<open>Read_csv\<close>, \<open>Pyodbc_connect\<close>, \<open>Create_engine\<close>, \<open>To_sql\<close>, \<open>Engine_connect\<close>,
  \<open>Execute\<close> and \<open>Read_sql\<close> are the library calls of lines 14, 20, 42, 46, 50, 55, 56
  and 64 with the arguments that matter; \<open>Conn_opened\<close> and \<open>Conn_closed\<close> are the
  binding of \<open>conn\<close> (line 42) and \<open>conn.close()\<close> (line 77); \<open>Connection_opened\<close> and
  \<open>Connection_closed\<close> are the entry into and the exit from the \<open>with\<close> block of line
  55; \<open>Raised e\<close> says that the call just logged raised \<open>e\<close>. What \<open>to_sql\<close> and
  \<open>read_sql\<close> do with connections inside the libraries is not part of the trace.
\<close>

datatype event =
    Print string
  | Isfile string
  | Read_csv string string string
  | Pyodbc_connect string
  | Conn_opened
  | Conn_closed
  | Create_engine string
  | To_sql string string
  | Engine_connect
  | Connection_opened
  | Connection_closed
  | Execute string
  | Read_sql string
  | Raised exn

text \<open>
  The outside world. \<open>pyodbc_connect\<close> and \<open>engine_connect\<close> answer \<open>None\<close> when the
  connection was obtained. \<open>to_sql\<close> answers with the exception it raised, if any, and
  the database it leaves behind (a failed write may leave a partial table). The two count
  queries are \<open>SELECT\<close> statements: they read the database and answer with the count or
  an exception. \<open>frame_repr\<close> is pandas' rendering of a frame as text. \<open>print\<close> and
  \<open>conn.close()\<close> are taken not to fail.
\<close>

record world =
  isfile :: "string \<Rightarrow> bool"
  read_csv :: "string \<Rightarrow> string \<Rightarrow> string \<Rightarrow> exn + dataframe"
  frame_repr :: "dataframe \<Rightarrow> string"
  pyodbc_connect :: "string \<Rightarrow> exn option"
  create_engine :: "string \<Rightarrow> exn + engine"
  to_sql :: "database \<Rightarrow> engine \<Rightarrow> string \<Rightarrow> string \<Rightarrow> dataframe \<Rightarrow> exn option \<times> database"
  engine_connect :: "engine \<Rightarrow> exn option"
  execute :: "database \<Rightarrow> string \<Rightarrow> exn + int"
  read_sql :: "database \<Rightarrow> engine \<Rightarrow> string \<Rightarrow> exn + int"

text \<open>What a call of \<open>load_csv_to_sql_server\<close> or \<open>main\<close> amounts to: how it ended
  (\<open>Inl e\<close>: the exception \<open>e\<close> left the function; \<open>Inr ()\<close>: it returned), the events
  in the order they happened, and the database it left behind.\<close>

record run =
  outcome :: "exn + unit"
  trace :: "event list"
  db :: database

subsection \<open>String helpers\<close>

definition digit_char :: "nat \<Rightarrow> char" where
  "digit_char n = ''0123456789'' ! (n mod 10)"

fun str_nat :: "nat \<Rightarrow> string" where
  "str_nat n = (if n < 10 then [digit_char n] else str_nat (n div 10) @ [digit_char (n mod 10)])"

declare str_nat.simps [simp del]

definition str_int :: "int \<Rightarrow> string" where
  "str_int i = (if i < 0 then CHR ''-'' # str_nat (nat (- i)) else str_nat (nat i))"

text \<open>\<open>sep.join(xs)\<close>\<close>

fun join :: "string \<Rightarrow> string list \<Rightarrow> string" where
  "join sep [] = []"
| "join sep [x] = x"
| "join sep (x # y # ys) = x @ sep @ join sep (y # ys)"

text \<open>\<open>urllib.parse.quote_plus\<close>: letters, digits and \<open>_.-~\<close> stay, a space becomes
  \<open>+\<close>, every other byte becomes \<open>%XX\<close>.\<close>

definition always_safe :: "char \<Rightarrow> bool" where
  "always_safe c = (c \<in> set ''ABCDEFGHIJKLMNOPQRSTUVWXYZabcdefghijklmnopqrstuvwxyz0123456789_.-~'')"

definition hex_char :: "nat \<Rightarrow> char" where
  "hex_char n = ''0123456789ABCDEF'' ! (n mod 16)"

definition quote_char :: "char \<Rightarrow> string" where
  "quote_char c =
     (if c = CHR '' '' then ''+''
      else if always_safe c then [c]
      else [CHR ''%'', hex_char (of_char c div 16), hex_char (of_char c mod 16)])"

definition quote_plus :: "string \<Rightarrow> string" where
  "quote_plus s = concat (map quote_char s)"

text \<open>Python's truth value of a \<open>None\<close>-or-string argument: \<open>not x\<close>.\<close>

definition py_not :: "string option \<Rightarrow> bool" where
  "py_not x = (x = None \<or> x = Some [])"

text \<open>\<open>x or default\<close>\<close>

definition py_or :: "string option \<Rightarrow> string \<Rightarrow> string" where
  "py_or x dflt = (case x of None \<Rightarrow> dflt | Some v \<Rightarrow> if v = [] then dflt else v)"

subsection \<open>load_csv_to_sql_server\<close>

text \<open>Lines 32 to 37: the connection string. The credential branch raises \<open>ValueError\<close>
  when \<open>not username or not password\<close>.\<close>

definition connection_string ::
  "string \<Rightarrow> string \<Rightarrow> string option \<Rightarrow> string option \<Rightarrow> bool \<Rightarrow> exn + string" where
  "connection_string server database username password trusted_connection =
     (if trusted_connection then
        Inr (''DRIVER={ODBC Driver 17 for SQL Server};SERVER='' @ server @ '';DATABASE='' @ database
             @ '';Trusted_Connection=yes;'')
      else if py_not username \<or> py_not password then
        Inl (ValueError ''Username and password are required when not using trusted connection'')
      else
        Inr (''DRIVER={ODBC Driver 17 for SQL Server};SERVER='' @ server @ '';DATABASE='' @ database
             @ '';UID='' @ the username @ '';PWD='' @ the password))"

text \<open>In the last branch neither argument is \<open>None\<close>, so \<open>the\<close> reads a
  \<open>Some\<close>.\<close>

text \<open>Lines 59 to 68: the handler of the first verification's exception \<open>ve\<close>, with
  the second verification nested in it. It answers with its events.\<close>

definition alternative_verification ::
  "world \<Rightarrow> database \<Rightarrow> engine \<Rightarrow> string \<Rightarrow> exn \<Rightarrow> event list" where
  "alternative_verification w d eng table_name ve =
     (let q = ''SELECT COUNT(*) AS row_count FROM ['' @ table_name @ '']''
      in [Print (''Verification error: '' @ str_exn ve),
          Print ''Trying alternative verification method...'',
          Read_sql q]
         @ (case read_sql w d eng q of
              Inr n \<Rightarrow> [Print (''Verification: Table has '' @ str_int n @ '' rows'')]
            | Inl ve2 \<Rightarrow>
                [Raised ve2,
                 Print (''Alternative verification failed: '' @ str_exn ve2),
                 Print ''Data may have been inserted, but verification was not possible'']))"

text \<open>Lines 53 to 68: the verification. The \<open>with\<close> block releases the engine's
  connection on both of its exits.\<close>

definition verification :: "world \<Rightarrow> database \<Rightarrow> engine \<Rightarrow> string \<Rightarrow> event list" where
  "verification w d eng table_name =
     Engine_connect #
     (case engine_connect w eng of
        Some ve \<Rightarrow> Raised ve # alternative_verification w d eng table_name ve
      | None \<Rightarrow>
          (let q = ''SELECT COUNT(*) FROM ['' @ table_name @ '']''
           in [Connection_opened, Execute q]
              @ (case execute w d q of
                   Inl ve \<Rightarrow>
                     [Raised ve, Connection_closed]
                     @ alternative_verification w d eng table_name ve
                 | Inr n \<Rightarrow>
                     [Print (''Verification: Table has '' @ str_int n @ '' rows''),
                      Connection_closed])))"

text \<open>Lines 44 to 70: the part of the \<open>try\<close> block after \<open>conn\<close> is bound. It answers
  with the exception that reaches the \<open>except\<close> clause of line 72, if any, its events and
  the database.\<close>

definition load_and_verify ::
  "world \<Rightarrow> database \<Rightarrow> string \<Rightarrow> string \<Rightarrow> string \<Rightarrow> dataframe
     \<Rightarrow> exn option \<times> event list \<times> database" where
  "load_and_verify w d connection_string' table_name if_exists df =
     (let quoted_params = quote_plus connection_string';
          url = ''mssql+pyodbc:///?odbc_connect='' @ quoted_params
      in case create_engine w url of
           Inl e \<Rightarrow> (Some e, [Create_engine url, Raised e], d)
         | Inr eng \<Rightarrow>
             (let es = [Create_engine url,
                        Print (''Loading data into '' @ table_name @ '' table...''),
                        To_sql table_name if_exists]
              in case to_sql w d eng table_name if_exists df of
                   (Some e, d') \<Rightarrow> (Some e, es @ [Raised e], d')
                 | (None, d') \<Rightarrow>
                     (None,
                      es @ verification w d' eng table_name
                         @ [Print (''Successfully loaded '' @ str_nat (length (rows df))
                                   @ '' rows into '' @ table_name)],
                      d')))"

text \<open>Lines 39 to 78: the \<open>try\<close> block with its \<open>except Exception\<close> and \<open>finally\<close>.
  \<open>conn\<close> is a local exactly when \<open>pyodbc.connect\<close> returned.\<close>

definition connect_and_load ::
  "world \<Rightarrow> database \<Rightarrow> string \<Rightarrow> string \<Rightarrow> string \<Rightarrow> dataframe
     \<Rightarrow> event list \<times> database" where
  "connect_and_load w d connection_string' table_name if_exists df =
     (let es = [Print ''Connecting to SQL Server...'', Pyodbc_connect connection_string']
      in case pyodbc_connect w connection_string' of
           Some e \<Rightarrow> (es @ [Raised e, Print (''Error: '' @ str_exn e)], d)
         | None \<Rightarrow>
             (case load_and_verify w d connection_string' table_name if_exists df of
                (r, es', d') \<Rightarrow>
                  (es @ [Conn_opened] @ es'
                      @ (case r of Some e \<Rightarrow> [Print (''Error: '' @ str_exn e)] | None \<Rightarrow> [])
                      @ [Conn_closed, Print ''SQL Server connection closed''],
                   d')))"

definition load_csv_to_sql_server ::
  "world \<Rightarrow> database \<Rightarrow> string \<Rightarrow> string \<Rightarrow> string \<Rightarrow> string \<Rightarrow> string option
     \<Rightarrow> string option \<Rightarrow> bool \<Rightarrow> string \<Rightarrow> string \<Rightarrow> string \<Rightarrow> run" where
  "load_csv_to_sql_server w d csv_path table_name server database username password
       trusted_connection delimiter encoding if_exists =
     (if \<not> isfile w csv_path then
        \<lparr>outcome = Inl (FileNotFoundError (''CSV file not found: '' @ csv_path)),
         trace = [Isfile csv_path], db = d\<rparr>
      else
        (let es = [Isfile csv_path,
                   Print (''Reading data from '' @ csv_path @ ''...''),
                   Read_csv csv_path delimiter encoding]
         in case read_csv w csv_path delimiter encoding of
              Inl e \<Rightarrow>
                \<lparr>outcome = Inr (),
                 trace = es @ [Raised e, Print (''Error reading CSV: '' @ str_exn e)], db = d\<rparr>
            | Inr df \<Rightarrow>
                if df_empty df then
                  \<lparr>outcome = Inr (),
                   trace = es @ [Print ''WARNING: The CSV file has no data!''], db = d\<rparr>
                else
                  (let es2 = es @
                         [Print (''CSV loaded: '' @ str_nat (length (rows df)) @ '' rows and ''
                                 @ str_nat (length (columns df)) @ '' columns''),
                          Print (''Column names: '' @ join '', '' (columns df)),
                          Print (''First few rows: '' @ [CHR 0x0A] @ frame_repr w (head 3 df))]
                   in case connection_string server database username password
                             trusted_connection of
                        Inl e \<Rightarrow> \<lparr>outcome = Inl e, trace = es2, db = d\<rparr>
                      | Inr cs \<Rightarrow>
                          (case connect_and_load w d cs table_name if_exists df of
                             (es3, d') \<Rightarrow>
                               \<lparr>outcome = Inr (), trace = es2 @ es3, db = d'\<rparr>))))"

subsection \<open>The destination's write\<close>

text \<open>Modelled from the spec: \<open>DataFrame.to_sql\<close> is pandas' code, not the repository's.
  Section 4.4 gives its three conflict policies: \<open>fail\<close> errors if the table already
  exists, \<open>replace\<close> discards the existing table and its data and creates the table anew
  from the dataset, \<open>append\<close> adds the rows to an existing table and fails on a schema
  mismatch. Any other policy is rejected.\<close>

definition spec_to_sql ::
  "database \<Rightarrow> engine \<Rightarrow> string \<Rightarrow> string \<Rightarrow> dataframe \<Rightarrow> exn option \<times> database" where
  "spec_to_sql d eng table_name if_exists df =
     (if if_exists = ''replace'' then (None, d(table_name \<mapsto> df))
      else if if_exists = ''fail'' then
        (case d table_name of
           None \<Rightarrow> (None, d(table_name \<mapsto> df))
         | Some old \<Rightarrow> (Some (ValueError (''Table '' @ table_name @ '' already exists.'')), d))
      else if if_exists = ''append'' then
        (case d table_name of
           None \<Rightarrow> (None, d(table_name \<mapsto> df))
         | Some old \<Rightarrow>
             if columns old = columns df
             then (None, d(table_name \<mapsto> old\<lparr>rows := rows old @ rows df\<rparr>))
             else (Some (OtherException ''schema mismatch''), d))
      else (Some (ValueError (if_exists @ '' is not valid for if_exists'')), d))"

subsection \<open>main\<close>

text \<open>The namespace \<open>parser.parse_args()\<close> returns; the model of \<open>main\<close> starts there.\<close>

record args =
  csv_file :: string
  table_name :: string
  server :: string
  database :: string
  username :: "string option"
  password :: "string option"
  trusted_connection :: bool
  delimiter :: string
  if_exists :: string

definition main :: "world \<Rightarrow> database \<Rightarrow> args \<Rightarrow> run" where
  "main w d a =
     load_csv_to_sql_server w d (csv_file a) (table_name a) (server a) (database a)
       (Some (py_or (username a) ''sa'')) (Some (py_or (password a) ''P@ssw0rd!''))
       (trusted_connection a) (delimiter a) ''utf-8'' (if_exists a)"

text \<open>The exit status of the process that runs \<open>main()\<close> at top level: an exception that
  leaves \<open>main\<close> ends the interpreter with status 1, a return with status 0.\<close>

definition exit_status :: "exn + unit \<Rightarrow> nat" where
  "exit_status r = (case r of Inl e \<Rightarrow> 1 | Inr u \<Rightarrow> 0)"

subsection \<open>Observations on a trace\<close>




text \<open>The calls that go to pyodbc, SQLAlchemy or the database, and their effects.\<close>

fun db_call :: "event \<Rightarrow> bool" where
  "db_call (Print m) = False"
| "db_call (Isfile p) = False"
| "db_call (Read_csv p dl enc) = False"
| "db_call (Raised e) = False"
| "db_call e = True"

text \<open>An exception's message appears in one of the four lines that the \<open>except\<close>
  clauses of lines 27, 59, 66 and 72 print.\<close>

definition reported :: "exn \<Rightarrow> event list \<Rightarrow> bool" where
  "reported e tr =
     (Print (''Error reading CSV: '' @ str_exn e) \<in> set tr
      \<or> Print (''Verification error: '' @ str_exn e) \<in> set tr
      \<or> Print (''Alternative verification failed: '' @ str_exn e) \<in> set tr
      \<or> Print (''Error: '' @ str_exn e) \<in> set tr)"

subsection \<open>Example worlds\<close>

definition customers :: dataframe where
  "customers = \<lparr>columns = [''id'', ''name''],
                 rows = [[''1'', ''Ann''], [''2'', ''Bob''], [''3'', ''Cy'']]\<rparr>"

definition orders :: dataframe where
  "orders = \<lparr>columns = [''id'', ''item''], rows = [[''7'', ''pen'']]\<rparr>"

definition header_only :: dataframe where
  "header_only = \<lparr>columns = [''id'', ''name''], rows = []\<rparr>"

text \<open>A world with three files, in which every library call succeeds.\<close>

definition example_world :: world where
  "example_world =
     \<lparr>isfile = (\<lambda>p. p = ''data.csv'' \<or> p = ''more.csv'' \<or> p = ''empty.csv''),
      read_csv = (\<lambda>p dl enc.
         if p = ''data.csv'' then Inr customers
         else if p = ''more.csv'' then Inr orders
         else if p = ''empty.csv'' then Inr header_only
         else Inl (FileNotFoundError p)),
      frame_repr = (\<lambda>df. join '' '' (columns df)),
      pyodbc_connect = (\<lambda>cs. None),
      create_engine = (\<lambda>url. Inr (Engine url)),
      to_sql = spec_to_sql,
      engine_connect = (\<lambda>eng. None),
      execute = (\<lambda>d q. Inr 3),
      read_sql = (\<lambda>d eng q. Inr 3)\<rparr>"

definition timeout :: exn where
  "timeout = OtherException ''timeout''"

text \<open>The same world with a database that accepts the connection and then times out on
  every statement.\<close>

definition unreachable_world :: world where
  "unreachable_world =
     example_world
       \<lparr>to_sql := (\<lambda>d eng t ie df. (Some timeout, d)),
        execute := (\<lambda>d q. Inl timeout),
        read_sql := (\<lambda>d eng q. Inl timeout)\<rparr>"

text \<open>The same world with count queries that fail, and with ones that answer 7.\<close>

definition unverifiable_world :: world where
  "unverifiable_world =
     example_world
       \<lparr>engine_connect := (\<lambda>eng. None),
        execute := (\<lambda>d q. Inl timeout),
        read_sql := (\<lambda>d eng q. Inl timeout)\<rparr>"

definition miscounting_world :: world where
  "miscounting_world =
     example_world
       \<lparr>engine_connect := (\<lambda>eng. None),
        execute := (\<lambda>d q. Inr 7),
        read_sql := (\<lambda>d eng q. Inr 7)\<rparr>"

definition example_cs :: string where
  "example_cs =
     ''DRIVER={ODBC Driver 17 for SQL Server};SERVER=127.0.0.1;DATABASE=pythondemo;UID=sa;PWD=pw''"

definition example_url :: string where
  "example_url = ''mssql+pyodbc:///?odbc_connect='' @ quote_plus example_cs"

definition example_args :: args where
  "example_args =
     \<lparr>csv_file = ''data.csv'', table_name = ''customers'', server = ''127.0.0.1'',
      database = ''pythondemo'', username = None, password = None,
      trusted_connection = False, delimiter = '','', if_exists = ''replace''\<rparr>"

section \<open>Properties\<close>

subsection \<open>Helper lemmas\<close>

lemmas run_defs = load_csv_to_sql_server_def connect_and_load_def load_and_verify_def
  verification_def alternative_verification_def connection_string_def Let_def

lemmas example_defs = example_world_def unreachable_world_def unverifiable_world_def
  miscounting_world_def example_args_def customers_def orders_def header_only_def timeout_def
  df_empty_def py_not_def py_or_def spec_to_sql_def

lemma reported_append: "reported e (xs @ ys) = (reported e xs \<or> reported e ys)"
  by (auto simp add: reported_def)

lemma reported_mono: "reported e xs \<Longrightarrow> set xs \<subseteq> set ys \<Longrightarrow> reported e ys"
  by (auto simp add: reported_def)

lemma reported_ConsI: "reported e xs \<Longrightarrow> reported e (x # xs)"
  by (auto simp add: reported_def)

lemma alternative_verification_reports:
  "reported ve (alternative_verification w d eng tn ve)"
  by (simp add: alternative_verification_def reported_def Let_def)

lemma alternative_verification_raised:
  "Raised e \<in> set (alternative_verification w d eng tn ve)
     \<Longrightarrow> reported e (alternative_verification w d eng tn ve)"
  by (auto simp add: alternative_verification_def reported_def Let_def split: sum.splits)



lemma verification_raised:
  assumes "Raised e \<in> set (verification w d eng tn)"
  shows "reported e (verification w d eng tn)"
proof (cases "engine_connect w eng")
  case (Some ve)
  then have eq: "verification w d eng tn =
      Engine_connect # Raised ve # alternative_verification w d eng tn ve"
    by (simp add: verification_def)
  with assms have "e = ve \<or> Raised e \<in> set (alternative_verification w d eng tn ve)"
    by auto
  then have "reported e (alternative_verification w d eng tn ve)"
    using alternative_verification_reports alternative_verification_raised by blast
  then show ?thesis
    unfolding eq by (intro reported_ConsI)
next
  case None
  show ?thesis
  proof (cases "execute w d (''SELECT COUNT(*) FROM ['' @ tn @ '']'')")
    case (Inl ve)
    with None have eq: "verification w d eng tn =
        Engine_connect # Connection_opened # Execute (''SELECT COUNT(*) FROM ['' @ tn @ '']'')
          # Raised ve # Connection_closed # alternative_verification w d eng tn ve"
      by (simp add: verification_def)
    with assms have "e = ve \<or> Raised e \<in> set (alternative_verification w d eng tn ve)"
      by auto
    then have "reported e (alternative_verification w d eng tn ve)"
      using alternative_verification_reports alternative_verification_raised by blast
    then show ?thesis
      unfolding eq by (intro reported_ConsI)
  next
    case (Inr n)
    with None assms show ?thesis
      by (simp add: verification_def)
  qed
qed



lemma load_and_verify_raised:
  assumes "load_and_verify w d cs tn ie df = (r, es, d')" and "Raised e \<in> set es"
  shows "r = Some e \<or> reported e es"
  using assms unfolding load_and_verify_def Let_def
  by (auto simp add: reported_append dest: verification_raised intro!: reported_ConsI 
      split: sum.splits option.splits prod.splits)



lemma error_line: "reported e [Print (''Error: '' @ str_exn e)]"
  by (simp add: reported_def)

lemma connect_and_load_raised:
  assumes "connect_and_load w d cs tn ie df = (es, d')" and "Raised e \<in> set es"
  shows "reported e es"
proof (cases "pyodbc_connect w cs")
  case (Some e')
  with assms show ?thesis
    by (auto simp add: connect_and_load_def reported_def)
next
  case None
  obtain r es' d'' where lv: "load_and_verify w d cs tn ie df = (r, es', d'')"
    by (cases "load_and_verify w d cs tn ie df") auto
  with None assms have es: "es = [Print ''Connecting to SQL Server...'', Pyodbc_connect cs, Conn_opened]
      @ es' @ (case r of Some e \<Rightarrow> [Print (''Error: '' @ str_exn e)] | None \<Rightarrow> [])
      @ [Conn_closed, Print ''SQL Server connection closed'']"
    by (auto simp add: connect_and_load_def)
  with assms have "Raised e \<in> set es'"
    by (auto split: option.splits)
  with lv have "r = Some e \<or> reported e es'"
    by (rule load_and_verify_raised)
  then show ?thesis
  proof
    assume r: "r = Some e"
    have "reported e [Print (''Error: '' @ str_exn e)]"
      by (rule error_line)
    then show ?thesis
      by (rule reported_mono) (simp add: es r)
  next
    assume "reported e es'"
    then show ?thesis
      by (rule reported_mono) (auto simp add: es)
  qed
qed



lemma load_raised:
  assumes "Raised e \<in> set (trace (load_csv_to_sql_server w d p tn srv dbn user pw tc dl enc ie))"
  shows "reported e (trace (load_csv_to_sql_server w d p tn srv dbn user pw tc dl enc ie))"
proof (cases "isfile w p")
  case False
  with assms show ?thesis
    by (simp add: load_csv_to_sql_server_def Let_def)
next
  case True
  show ?thesis
  proof (cases "read_csv w p dl enc")
    case (Inl e')
    with True assms show ?thesis
      by (auto simp add: load_csv_to_sql_server_def Let_def reported_def)
  next
    case (Inr df)
    show ?thesis
    proof (cases "connection_string srv dbn user pw tc")
      case (Inl e')
      with True Inr assms show ?thesis
        by (simp add: load_csv_to_sql_server_def Let_def split: if_splits)
    next
      case cs: (Inr cs)
      obtain es d' where cl: "connect_and_load w d cs tn ie df = (es, d')"
        by (cases "connect_and_load w d cs tn ie df") auto
      show ?thesis
      proof (cases "df_empty df")
        case True
        with \<open>isfile w p\<close> Inr assms show ?thesis
          by (simp add: load_csv_to_sql_server_def Let_def)
      next
        case False
        with True Inr cs cl assms have "Raised e \<in> set es"
          by (simp add: load_csv_to_sql_server_def Let_def)
        with cl have "reported e es"
          by (rule connect_and_load_raised)
        then show ?thesis
          by (rule reported_mono) (auto simp add: load_csv_to_sql_server_def Let_def True Inr cs cl False)
      qed
    qed
  qed
qed

lemma load_outcome:
  "outcome (load_csv_to_sql_server w d p tn srv dbn user pw tc dl enc ie) =
     (if \<not> isfile w p then Inl (FileNotFoundError (''CSV file not found: '' @ p))
      else case read_csv w p dl enc of
             Inl e \<Rightarrow> Inr ()
           | Inr df \<Rightarrow>
               if df_empty df then Inr ()
               else if \<not> tc \<and> (py_not user \<or> py_not pw) then
                 Inl (ValueError ''Username and password are required when not using trusted connection'')
               else Inr ())"
  by (simp add: load_csv_to_sql_server_def connection_string_def Let_def split: sum.splits prod.splits)

lemma py_or_truthy: "dflt \<noteq> [] \<Longrightarrow> \<not> py_not (Some (py_or x dflt))"
  by (simp add: py_or_def py_not_def split: option.splits)

lemma main_exit: "exit_status (outcome (main w d a)) = (if isfile w (csv_file a) then 0 else 1)"
  by (simp add: main_def load_outcome exit_status_def py_or_truthy split: sum.splits)

lemma success_run:
  assumes "isfile w p" and "read_csv w p dl enc = Inr df" and "\<not> df_empty df"
    and "connection_string srv dbn user pw tc = Inr cs"
    and "pyodbc_connect w cs = None"
    and "create_engine w (''mssql+pyodbc:///?odbc_connect='' @ quote_plus cs) = Inr eng"
    and "to_sql w d eng tn ie df = (None, d')"
  shows "load_csv_to_sql_server w d p tn srv dbn user pw tc dl enc ie =
     \<lparr>outcome = Inr (),
      trace =
        [Isfile p,
         Print (''Reading data from '' @ p @ ''...''),
         Read_csv p dl enc,
         Print (''CSV loaded: '' @ str_nat (length (rows df)) @ '' rows and ''
                @ str_nat (length (columns df)) @ '' columns''),
         Print (''Column names: '' @ join '', '' (columns df)),
         Print (''First few rows: '' @ [CHR 0x0A] @ frame_repr w (head 3 df)),
         Print ''Connecting to SQL Server...'',
         Pyodbc_connect cs,
         Conn_opened,
         Create_engine (''mssql+pyodbc:///?odbc_connect='' @ quote_plus cs),
         Print (''Loading data into '' @ tn @ '' table...''),
         To_sql tn ie]
        @ verification w d' eng tn
        @ [Print (''Successfully loaded '' @ str_nat (length (rows df)) @ '' rows into '' @ tn),
           Conn_closed,
           Print ''SQL Server connection closed''],
      db = d'\<rparr>"
  using assms
  by (simp add: load_csv_to_sql_server_def connect_and_load_def load_and_verify_def Let_def)



subsection \<open>The example worlds, evaluated\<close>

lemma str_nat_digit: "n < 10 \<Longrightarrow> str_nat n = [digit_char n]"
  by (simp add: str_nat.simps)

lemma example_strings:
  "str_nat 1 = ''1''" "str_nat 2 = ''2''" "str_nat 3 = ''3''" "str_int 3 = ''3''" "str_int 7 = ''7''"
  by (simp_all add: str_nat_digit str_int_def digit_char_def)

lemma example_frames:
  "\<not> df_empty customers" "length (rows customers) = 3" "length (columns customers) = 2"
  "join '', '' (columns customers) = ''id, name''"
  "join '' '' (columns (head 3 customers)) = ''id name''"
  "\<not> df_empty orders" "length (rows orders) = 1" "length (columns orders) = 2"
  "join '', '' (columns orders) = ''id, item''"
  "join '' '' (columns (head 3 orders)) = ''id item''"
  by (simp_all add: df_empty_def customers_def orders_def head_def)

lemma example_connection_string:
  "connection_string ''127.0.0.1'' ''pythondemo'' (Some ''sa'') (Some ''pw'') False = Inr example_cs"
  by (simp add: connection_string_def py_not_def example_cs_def)

lemma example_world_answers:
  "isfile example_world ''data.csv''" "isfile example_world ''more.csv''"
  "read_csv example_world ''data.csv'' dl enc = Inr customers"
  "read_csv example_world ''more.csv'' dl enc = Inr orders"
  "frame_repr example_world df = join '' '' (columns df)"
  "pyodbc_connect example_world cs = None"
  "create_engine example_world url = Inr (Engine url)"
  "to_sql example_world = spec_to_sql"
  by (simp_all add: example_world_def)

subsection \<open>The claims\<close>

text \<open>
  Claim C2. When the path is not an existing regular file, the procedure ends with
  \<open>FileNotFoundError\<close>: the only thing it has done is the \<open>isfile\<close> check (nothing
  was parsed, no connection string was built, no connection was attempted) and the
  destination is as it was.
\<close>

theorem missing_file_raises_before_any_work:
  assumes "\<not> isfile w csv_path"
  shows "load_csv_to_sql_server w d csv_path tn srv dbn user pw tc dl enc ie =
           \<lparr>outcome = Inl (FileNotFoundError (''CSV file not found: '' @ csv_path)),
            trace = [Isfile csv_path], db = d\<rparr>"
  using assms by (simp add: load_csv_to_sql_server_def)

theorem missing_file_raises_before_any_work_witness:
  "\<not> isfile example_world ''missing.csv'' \<and>
   load_csv_to_sql_server example_world Map.empty ''missing.csv'' ''customers'' ''127.0.0.1''
       ''pythondemo'' (Some ''sa'') (Some ''pw'') False '','' ''utf-8'' ''replace'' =
     \<lparr>outcome = Inl (FileNotFoundError ''CSV file not found: missing.csv''),
      trace = [Isfile ''missing.csv''], db = Map.empty\<rparr>"
  using missing_file_raises_before_any_work [of example_world "''missing.csv''" Map.empty
      "''customers''" "''127.0.0.1''" "''pythondemo''" "Some ''sa''" "Some ''pw''" False
      "'',''" "''utf-8''" "''replace''"]
  by (simp add: example_world_def)

text \<open>
  Claim C3. When the parsed dataset has no data rows, the procedure prints the warning and
  returns: its events are the file check, the read and the two printed lines, so no
  connection string is used, no connection is opened and no load is attempted, and the
  destination is as it was.
\<close>

theorem empty_dataset_is_not_loaded:
  assumes "isfile w csv_path" and "read_csv w csv_path dl enc = Inr df" and "rows df = []"
  shows "load_csv_to_sql_server w d csv_path tn srv dbn user pw tc dl enc ie =
           \<lparr>outcome = Inr (),
            trace = [Isfile csv_path,
                     Print (''Reading data from '' @ csv_path @ ''...''),
                     Read_csv csv_path dl enc,
                     Print ''WARNING: The CSV file has no data!''],
            db = d\<rparr>"
  using assms by (simp add: load_csv_to_sql_server_def df_empty_def)

theorem empty_dataset_is_not_loaded_witness:
  "isfile example_world ''empty.csv'' \<and>
   read_csv example_world ''empty.csv'' '','' ''utf-8'' = Inr header_only \<and>
   rows header_only = [] \<and>
   load_csv_to_sql_server example_world [''customers'' \<mapsto> customers] ''empty.csv'' ''customers''
       ''127.0.0.1'' ''pythondemo'' (Some ''sa'') None False '','' ''utf-8'' ''replace'' =
     \<lparr>outcome = Inr (),
      trace = [Isfile ''empty.csv'',
               Print ''Reading data from empty.csv...'',
               Read_csv ''empty.csv'' '','' ''utf-8'',
               Print ''WARNING: The CSV file has no data!''],
      db = [''customers'' \<mapsto> customers]\<rparr>"
  using empty_dataset_is_not_loaded [of example_world "''empty.csv''" "'',''" "''utf-8''"
      header_only "[''customers'' \<mapsto> customers]" "''customers''" "''127.0.0.1''"
      "''pythondemo''" "Some ''sa''" None False "''replace''"]
  by (simp add: example_world_def header_only_def)

text \<open>
  Claim C4. In credential mode with a missing or empty username or password, building
  the connection string fails with \<open>ValueError\<close>; no run with such arguments makes any
  call to pyodbc, SQLAlchemy or the database or changes the destination, and a run that
  reaches the connection string (the file exists and was read with data) ends with that
  \<open>ValueError\<close> right after the three lines about the dataset.
\<close>

theorem missing_credentials_raise_before_any_call:
  assumes "\<not> tc" and "py_not user \<or> py_not pw"
  shows "connection_string srv dbn user pw tc =
           Inl (ValueError ''Username and password are required when not using trusted connection'')
         \<and> filter db_call (trace (load_csv_to_sql_server w d p tn srv dbn user pw tc dl enc ie)) = []
         \<and> db (load_csv_to_sql_server w d p tn srv dbn user pw tc dl enc ie) = d
         \<and> (isfile w p \<and> read_csv w p dl enc = Inr df \<and> \<not> df_empty df \<longrightarrow>
              load_csv_to_sql_server w d p tn srv dbn user pw tc dl enc ie =
                \<lparr>outcome = Inl (ValueError
                    ''Username and password are required when not using trusted connection''),
                 trace =
                   [Isfile p,
                    Print (''Reading data from '' @ p @ ''...''),
                    Read_csv p dl enc,
                    Print (''CSV loaded: '' @ str_nat (length (rows df)) @ '' rows and ''
                           @ str_nat (length (columns df)) @ '' columns''),
                    Print (''Column names: '' @ join '', '' (columns df)),
                    Print (''First few rows: '' @ [CHR 0x0A] @ frame_repr w (head 3 df))],
                 db = d\<rparr>)"
  using assms
  by (simp add: load_csv_to_sql_server_def connection_string_def Let_def split: sum.splits)

theorem missing_credentials_raise_before_any_call_witness:
  "\<not> False \<and> (py_not (Some ''sa'') \<or> py_not (Some '''')) \<and>
   isfile example_world ''data.csv'' \<and>
   read_csv example_world ''data.csv'' '','' ''utf-8'' = Inr customers \<and>
   \<not> df_empty customers \<and>
   load_csv_to_sql_server example_world Map.empty ''data.csv'' ''customers'' ''127.0.0.1''
       ''pythondemo'' (Some ''sa'') (Some '''') False '','' ''utf-8'' ''replace'' =
     \<lparr>outcome = Inl (ValueError
         ''Username and password are required when not using trusted connection''),
      trace =
        [Isfile ''data.csv'',
         Print ''Reading data from data.csv...'',
         Read_csv ''data.csv'' '','' ''utf-8'',
         Print ''CSV loaded: 3 rows and 2 columns'',
         Print ''Column names: id, name'',
         Print (''First few rows: '' @ [CHR 0x0A] @ ''id name'')],
      db = Map.empty\<rparr>"
proof -
  have w: "isfile example_world ''data.csv''"
    "read_csv example_world ''data.csv'' '','' ''utf-8'' = Inr customers"
    "frame_repr example_world (head 3 customers) = ''id name''"
    by (simp_all add: example_world_def customers_def head_def)
  have c: "\<not> df_empty customers" "length (rows customers) = 3" "length (columns customers) = 2"
    "join '', '' (columns customers) = ''id, name''"
    by (simp_all add: df_empty_def customers_def)
  have n: "str_nat 3 = ''3''" "str_nat 2 = ''2''"
    by (simp_all add: str_nat.simps digit_char_def)
  have p: "py_not (Some ''sa'') \<or> py_not (Some '''')"
    by (simp add: py_not_def)
  show ?thesis
    using missing_credentials_raise_before_any_call [of False "Some ''sa''" "Some ''''"
        "''127.0.0.1''" "''pythondemo''" example_world Map.empty "''data.csv''" "''customers''"
        "'',''" "''utf-8''" "''replace''" customers] w c n p
    by simp
qed

text \<open>
  Claim C1, as stated, fails: a path that is not an existing regular file ends \<open>main\<close>
  with an uncaught \<open>FileNotFoundError\<close>, hence the process with status 1, and a call
  in credential mode without a password ends with an uncaught \<open>ValueError\<close>.
\<close>

theorem propagation_counterexample:
  "outcome (main example_world Map.empty (example_args\<lparr>csv_file := ''missing.csv''\<rparr>)) =
     Inl (FileNotFoundError ''CSV file not found: missing.csv'')
   \<and> exit_status (outcome (main example_world Map.empty
                             (example_args\<lparr>csv_file := ''missing.csv''\<rparr>))) = 1
   \<and> outcome (load_csv_to_sql_server example_world Map.empty ''data.csv'' ''customers''
                ''127.0.0.1'' ''pythondemo'' (Some ''sa'') None False '','' ''utf-8'' ''replace'') =
     Inl (ValueError ''Username and password are required when not using trusted connection'')"
  by (simp add: load_outcome main_def exit_status_def example_defs)

text \<open>
  Claim C1, amended. Every exception raised by a library call (reading the CSV,
  connecting, creating the engine, writing, verifying) is reported in a printed line, and
  the procedure returns normally unless it raises one of its own two exceptions: the
  \<open>FileNotFoundError\<close> for a path that is not an existing regular file, or the
  \<open>ValueError\<close> of the credential branch, reached when the file was read with data.
  Once the arguments are parsed, the process run by \<open>main\<close> ends with status 0 exactly
  when the path is an existing regular file.
\<close>

theorem library_errors_are_caught_and_reported:
  "(\<forall>e. Raised e \<in> set (trace (load_csv_to_sql_server w d p tn srv dbn user pw tc dl enc ie))
         \<longrightarrow> reported e (trace (load_csv_to_sql_server w d p tn srv dbn user pw tc dl enc ie)))
   \<and> outcome (load_csv_to_sql_server w d p tn srv dbn user pw tc dl enc ie) =
       (if \<not> isfile w p then Inl (FileNotFoundError (''CSV file not found: '' @ p))
        else case read_csv w p dl enc of
               Inl e \<Rightarrow> Inr ()
             | Inr df \<Rightarrow>
                 if df_empty df then Inr ()
                 else if \<not> tc \<and> (py_not user \<or> py_not pw) then
                   Inl (ValueError
                     ''Username and password are required when not using trusted connection'')
                 else Inr ())
   \<and> exit_status (outcome (main w d a)) = (if isfile w (csv_file a) then 0 else 1)"
  using load_raised [of _ w d p tn srv dbn user pw tc dl enc ie]
    load_outcome [of w d p tn srv dbn user pw tc dl enc ie] main_exit [of w d a]
  by blast

theorem library_errors_are_caught_and_reported_witness:
  "Raised timeout \<in> set (trace (load_csv_to_sql_server unreachable_world Map.empty ''data.csv''
       ''customers'' ''127.0.0.1'' ''pythondemo'' (Some ''sa'') (Some ''pw'') False '',''
       ''utf-8'' ''replace''))
   \<and> reported timeout (trace (load_csv_to_sql_server unreachable_world Map.empty ''data.csv''
       ''customers'' ''127.0.0.1'' ''pythondemo'' (Some ''sa'') (Some ''pw'') False '',''
       ''utf-8'' ''replace''))
   \<and> outcome (load_csv_to_sql_server unreachable_world Map.empty ''data.csv''
       ''customers'' ''127.0.0.1'' ''pythondemo'' (Some ''sa'') (Some ''pw'') False '',''
       ''utf-8'' ''replace'') = Inr ()
   \<and> exit_status (outcome (main unreachable_world Map.empty example_args)) = 0"
proof -
  have "Raised timeout \<in> set (trace (load_csv_to_sql_server unreachable_world Map.empty ''data.csv''
       ''customers'' ''127.0.0.1'' ''pythondemo'' (Some ''sa'') (Some ''pw'') False '',''
       ''utf-8'' ''replace''))"
    by (simp add: run_defs example_defs)
  then show ?thesis
    using library_errors_are_caught_and_reported [of unreachable_world Map.empty "''data.csv''"
       "''customers''" "''127.0.0.1''" "''pythondemo''" "Some ''sa''" "Some ''pw''" False "'',''"
       "''utf-8''" "''replace''" example_args]
    by (simp add: example_defs)
qed



text \<open>
  Claim C6. When the run reaches the write and the write succeeds, leaving the database
  \<open>d'\<close>, then whatever the verification's three calls answer (\<open>ec\<close>, \<open>ex\<close> and \<open>rs\<close>
  are arbitrary), the procedure returns normally, prints the success line, and leaves
  exactly \<open>d'\<close>.
\<close>

theorem verification_failure_keeps_load_success:
  assumes "isfile w p" and "read_csv w p dl enc = Inr df" and "\<not> df_empty df"
    and "connection_string srv dbn user pw tc = Inr cs"
    and "pyodbc_connect w cs = None"
    and "create_engine w (''mssql+pyodbc:///?odbc_connect='' @ quote_plus cs) = Inr eng"
    and "to_sql w d eng tn ie df = (None, d')"
  shows "outcome (load_csv_to_sql_server (w\<lparr>engine_connect := ec, execute := ex, read_sql := rs\<rparr>)
            d p tn srv dbn user pw tc dl enc ie) = Inr ()
    \<and> db (load_csv_to_sql_server (w\<lparr>engine_connect := ec, execute := ex, read_sql := rs\<rparr>)
            d p tn srv dbn user pw tc dl enc ie) = d'
    \<and> Print (''Successfully loaded '' @ str_nat (length (rows df)) @ '' rows into '' @ tn)
        \<in> set (trace (load_csv_to_sql_server
              (w\<lparr>engine_connect := ec, execute := ex, read_sql := rs\<rparr>)
              d p tn srv dbn user pw tc dl enc ie))"
proof -
  let ?w = "w\<lparr>engine_connect := ec, execute := ex, read_sql := rs\<rparr>"
  have "isfile ?w p" and "read_csv ?w p dl enc = Inr df" and "pyodbc_connect ?w cs = None"
    and "create_engine ?w (''mssql+pyodbc:///?odbc_connect='' @ quote_plus cs) = Inr eng"
    and "to_sql ?w d eng tn ie df = (None, d')"
    using assms by simp_all
  from success_run [OF this(1,2) assms(3,4) this(3,4,5)] show ?thesis
    by simp
qed

theorem verification_failure_keeps_load_success_witness:
  "isfile example_world ''data.csv''
   \<and> read_csv example_world ''data.csv'' '','' ''utf-8'' = Inr customers
   \<and> \<not> df_empty customers
   \<and> connection_string ''127.0.0.1'' ''pythondemo'' (Some ''sa'') (Some ''pw'') False
       = Inr example_cs
   \<and> pyodbc_connect example_world example_cs = None
   \<and> create_engine example_world (''mssql+pyodbc:///?odbc_connect='' @ quote_plus example_cs)
       = Inr (Engine example_url)
   \<and> to_sql example_world Map.empty (Engine example_url) ''customers'' ''replace'' customers
       = (None, [''customers'' \<mapsto> customers])
   \<and> outcome (load_csv_to_sql_server unverifiable_world Map.empty ''data.csv'' ''customers''
         ''127.0.0.1'' ''pythondemo'' (Some ''sa'') (Some ''pw'') False '','' ''utf-8''
         ''replace'') = Inr ()
   \<and> db (load_csv_to_sql_server unverifiable_world Map.empty ''data.csv'' ''customers''
         ''127.0.0.1'' ''pythondemo'' (Some ''sa'') (Some ''pw'') False '','' ''utf-8''
         ''replace'') = [''customers'' \<mapsto> customers]
   \<and> Print ''Successfully loaded 3 rows into customers''
       \<in> set (trace (load_csv_to_sql_server unverifiable_world Map.empty ''data.csv''
         ''customers'' ''127.0.0.1'' ''pythondemo'' (Some ''sa'') (Some ''pw'') False '',''
         ''utf-8'' ''replace''))"
proof -
  have w: "to_sql example_world Map.empty (Engine example_url) ''customers'' ''replace'' customers
      = (None, [''customers'' \<mapsto> customers])"
    by (simp add: example_world_answers spec_to_sql_def)
  have e: "create_engine example_world (''mssql+pyodbc:///?odbc_connect='' @ quote_plus example_cs)
       = Inr (Engine example_url)"
    by (simp add: example_world_answers example_url_def)
  show ?thesis
    using verification_failure_keeps_load_success [where w = example_world
        and p = "''data.csv''" and dl = "'',''" and enc = "''utf-8''" and df = customers
        and srv = "''127.0.0.1''" and dbn = "''pythondemo''" and user = "Some ''sa''"
        and pw = "Some ''pw''" and tc = False and cs = example_cs and eng = "Engine example_url"
        and d = Map.empty and tn = "''customers''" and ie = "''replace''"
        and d' = "[''customers'' \<mapsto> customers]" and ec = "\<lambda>eng. None"
        and ex = "\<lambda>d q. Inl timeout" and rs = "\<lambda>d eng q. Inl timeout"] w e
    by (simp add: example_world_answers example_frames example_strings
        example_connection_string unverifiable_world_def)
qed




text \<open>
  Claim C8. In trusted mode the connection string is built from server and database alone,
  and two runs that differ only in username and password are the same run: same outcome,
  same events, same database. No credential check is made.
\<close>

theorem trusted_mode_ignores_credentials:
  "connection_string srv dbn u1 p1 True =
     Inr (''DRIVER={ODBC Driver 17 for SQL Server};SERVER='' @ srv @ '';DATABASE='' @ dbn
          @ '';Trusted_Connection=yes;'')
   \<and> connection_string srv dbn u1 p1 True = connection_string srv dbn u2 p2 True
   \<and> load_csv_to_sql_server w d p tn srv dbn u1 p1 True dl enc ie =
       load_csv_to_sql_server w d p tn srv dbn u2 p2 True dl enc ie"
proof -
  have cs: "connection_string srv dbn u p True =
     Inr (''DRIVER={ODBC Driver 17 for SQL Server};SERVER='' @ srv @ '';DATABASE='' @ dbn
          @ '';Trusted_Connection=yes;'')" for u p
    by (simp add: connection_string_def)
  show ?thesis
    unfolding load_csv_to_sql_server_def cs by simp
qed

text \<open>
  Claim C9. \<open>main\<close> replaces a missing or empty username by \<open>sa\<close> and a missing or
  empty password by \<open>P@ssw0rd!\<close> before it calls the procedure, so in credential mode the
  connection string is always built, and no run of \<open>main\<close> ends with the \<open>ValueError\<close>
  of the credential branch.
\<close>

theorem cli_never_reaches_credential_error:
  "py_or None ''sa'' = ''sa'' \<and> py_or (Some []) ''sa'' = ''sa''
   \<and> py_or None ''P@ssw0rd!'' = ''P@ssw0rd!'' \<and> py_or (Some []) ''P@ssw0rd!'' = ''P@ssw0rd!''
   \<and> main w d a =
       load_csv_to_sql_server w d (csv_file a) (table_name a) (server a) (database a)
         (Some (py_or (username a) ''sa'')) (Some (py_or (password a) ''P@ssw0rd!''))
         (trusted_connection a) (delimiter a) ''utf-8'' (if_exists a)
   \<and> connection_string (server a) (database a) (Some (py_or (username a) ''sa''))
         (Some (py_or (password a) ''P@ssw0rd!'')) False =
       Inr (''DRIVER={ODBC Driver 17 for SQL Server};SERVER='' @ server a @ '';DATABASE=''
            @ database a @ '';UID='' @ py_or (username a) ''sa''
            @ '';PWD='' @ py_or (password a) ''P@ssw0rd!'')
   \<and> outcome (main w d a) \<noteq> Inl (ValueError m)"
proof -
  have u: "\<not> py_not (Some (py_or (username a) ''sa''))"
    and p: "\<not> py_not (Some (py_or (password a) ''P@ssw0rd!''))"
    by (simp_all add: py_or_truthy)
  have dflt: "py_or None ''sa'' = ''sa''" "py_or (Some []) ''sa'' = ''sa''"
    "py_or None ''P@ssw0rd!'' = ''P@ssw0rd!''" "py_or (Some []) ''P@ssw0rd!'' = ''P@ssw0rd!''"
    by (simp_all add: py_or_def)
  have cs: "connection_string (server a) (database a) (Some (py_or (username a) ''sa''))
         (Some (py_or (password a) ''P@ssw0rd!'')) False =
       Inr (''DRIVER={ODBC Driver 17 for SQL Server};SERVER='' @ server a @ '';DATABASE=''
            @ database a @ '';UID='' @ py_or (username a) ''sa''
            @ '';PWD='' @ py_or (password a) ''P@ssw0rd!'')"
    using u p by (simp add: connection_string_def)
  have out: "outcome (main w d a) \<noteq> Inl (ValueError m)"
    using u p by (simp add: main_def load_outcome split: sum.splits)
  show ?thesis
    using dflt cs out by (simp add: main_def)
qed

text \<open>
  Claim C10. When the run reaches the write and the write succeeds, the events are: the
  lines about the dataset, the connection and the write, then the verification's events,
  then the line \<open>Successfully loaded N rows into T\<close> with \<open>N\<close> the number of rows of the
  parsed dataset, then the closing of the connection. The line is the same whatever the
  verification's calls answer; the count they return appears only in the verification's
  own line.
\<close>

theorem success_line_counts_source_rows:
  assumes "isfile w p" and "read_csv w p dl enc = Inr df" and "\<not> df_empty df"
    and "connection_string srv dbn user pw tc = Inr cs"
    and "pyodbc_connect w cs = None"
    and "create_engine w (''mssql+pyodbc:///?odbc_connect='' @ quote_plus cs) = Inr eng"
    and "to_sql w d eng tn ie df = (None, d')"
  shows "trace (load_csv_to_sql_server (w\<lparr>engine_connect := ec, execute := ex, read_sql := rs\<rparr>)
            d p tn srv dbn user pw tc dl enc ie) =
        [Isfile p,
         Print (''Reading data from '' @ p @ ''...''),
         Read_csv p dl enc,
         Print (''CSV loaded: '' @ str_nat (length (rows df)) @ '' rows and ''
                @ str_nat (length (columns df)) @ '' columns''),
         Print (''Column names: '' @ join '', '' (columns df)),
         Print (''First few rows: '' @ [CHR 0x0A] @ frame_repr w (head 3 df)),
         Print ''Connecting to SQL Server...'',
         Pyodbc_connect cs,
         Conn_opened,
         Create_engine (''mssql+pyodbc:///?odbc_connect='' @ quote_plus cs),
         Print (''Loading data into '' @ tn @ '' table...''),
         To_sql tn ie]
        @ verification (w\<lparr>engine_connect := ec, execute := ex, read_sql := rs\<rparr>) d' eng tn
        @ [Print (''Successfully loaded '' @ str_nat (length (rows df)) @ '' rows into '' @ tn),
           Conn_closed,
           Print ''SQL Server connection closed'']"
proof -
  let ?w = "w\<lparr>engine_connect := ec, execute := ex, read_sql := rs\<rparr>"
  have "isfile ?w p" and "read_csv ?w p dl enc = Inr df" and "pyodbc_connect ?w cs = None"
    and "create_engine ?w (''mssql+pyodbc:///?odbc_connect='' @ quote_plus cs) = Inr eng"
    and "to_sql ?w d eng tn ie df = (None, d')"
    using assms by simp_all
  from success_run [OF this(1,2) assms(3,4) this(3,4,5)] show ?thesis
    by simp
qed

theorem success_line_counts_source_rows_witness:
  "isfile example_world ''data.csv''
   \<and> read_csv example_world ''data.csv'' '','' ''utf-8'' = Inr customers
   \<and> \<not> df_empty customers
   \<and> connection_string ''127.0.0.1'' ''pythondemo'' (Some ''sa'') (Some ''pw'') False
       = Inr example_cs
   \<and> pyodbc_connect example_world example_cs = None
   \<and> create_engine example_world (''mssql+pyodbc:///?odbc_connect='' @ quote_plus example_cs)
       = Inr (Engine example_url)
   \<and> to_sql example_world Map.empty (Engine example_url) ''customers'' ''replace'' customers
       = (None, [''customers'' \<mapsto> customers])
   \<and> trace (load_csv_to_sql_server miscounting_world Map.empty ''data.csv'' ''customers''
         ''127.0.0.1'' ''pythondemo'' (Some ''sa'') (Some ''pw'') False '','' ''utf-8''
         ''replace'') =
       [Isfile ''data.csv'',
        Print ''Reading data from data.csv...'',
        Read_csv ''data.csv'' '','' ''utf-8'',
        Print ''CSV loaded: 3 rows and 2 columns'',
        Print ''Column names: id, name'',
        Print (''First few rows: '' @ [CHR 0x0A] @ ''id name''),
        Print ''Connecting to SQL Server...'',
        Pyodbc_connect example_cs,
        Conn_opened,
        Create_engine example_url,
        Print ''Loading data into customers table...'',
        To_sql ''customers'' ''replace'',
        Engine_connect,
        Connection_opened,
        Execute ''SELECT COUNT(*) FROM [customers]'',
        Print ''Verification: Table has 7 rows'',
        Connection_closed,
        Print ''Successfully loaded 3 rows into customers'',
        Conn_closed,
        Print ''SQL Server connection closed'']"
proof -
  have w: "to_sql example_world Map.empty (Engine example_url) ''customers'' ''replace'' customers
      = (None, [''customers'' \<mapsto> customers])"
    by (simp add: example_world_answers spec_to_sql_def)
  have e: "create_engine example_world (''mssql+pyodbc:///?odbc_connect='' @ quote_plus example_cs)
       = Inr (Engine example_url)"
    by (simp add: example_world_answers example_url_def)
  have v: "verification miscounting_world [''customers'' \<mapsto> customers] (Engine example_url)
        ''customers'' =
      [Engine_connect, Connection_opened, Execute ''SELECT COUNT(*) FROM [customers]'',
       Print ''Verification: Table has 7 rows'', Connection_closed]"
    by (simp add: verification_def miscounting_world_def example_strings)
  show ?thesis
    using success_line_counts_source_rows [where w = example_world
        and p = "''data.csv''" and dl = "'',''" and enc = "''utf-8''" and df = customers
        and srv = "''127.0.0.1''" and dbn = "''pythondemo''" and user = "Some ''sa''"
        and pw = "Some ''pw''" and tc = False and cs = example_cs and eng = "Engine example_url"
        and d = Map.empty and tn = "''customers''" and ie = "''replace''"
        and d' = "[''customers'' \<mapsto> customers]" and ec = "\<lambda>eng. None"
        and ex = "\<lambda>d q. Inr 7" and rs = "\<lambda>d eng q. Inr 7"] w e v
    by (simp add: example_world_answers example_frames example_strings
        example_connection_string miscounting_world_def example_url_def)
qed

end
